theory Spec2Isabelle
  imports Main
begin

section \<open>The KDE front-end of usb-creator (usbcreator/frontends/kde/frontend.py)\<close>

text \<open>
  The front-end is a class with mutable widgets, driven by callbacks of a backend that
  lives outside the repository's sources. The embedding is a record of the state the
  methods read and write, each method a function from state to outcome and state.
  Widget calls are modelled by their direct effect on the widget; the slots that Qt
  runs on a widget's signals are the separate functions of this theory.
  \<open>misc.text_type\<close> is the conversion to \<open>str\<close> (the identity on strings) and
  \<open>_\<close> (gettext) is taken in the untranslated locale.
\<close>

subsection \<open>Python values and exceptions\<close>

datatype pyval = PyNone | PyBool bool

datatype exc = KeyError string | AttributeError | SystemExit int | BackendError

text \<open>The two standard buttons the message boxes of this file offer.\<close>

datatype button = Yes | No

datatype dialog =
    Critical string string
  | Warning string string
  | Information string string
  | Question string string

subsection \<open>The backend's mappings\<close>

text \<open>
  Modelled from the spec: the constants \<open>misc.CAN_USE\<close>, \<open>misc.CANNOT_USE\<close> and
  \<open>misc.SOURCE_IMG\<close> (module \<open>misc\<close> is not among the sources) are the values of
  the spec's enumerations \<open>status\<close> and \<open>type\<close>.
\<close>

datatype status = UNKNOWN | CAN_USE | CANNOT_USE

datatype source_type = SOURCE_IMG | SOURCE_ISO | SOURCE_DEVICE

record source_info =
  s_device :: string
  s_label :: string
  s_size :: int
  s_type :: source_type

record target_info =
  t_vendor :: string
  t_model :: string
  t_device :: string
  t_label :: string
  t_capacity :: int
  t_status :: status

datatype backend_call =
    AddImage string
  | DetectDevices
  | SetCurrentSource "string option"
  | Install string string bool
  | CancelInstall
  | Shutdown

text \<open>
  What the front-end reads of the backend (\<open>sources\<close>, \<open>targets\<close>,
  \<open>get_current_source()\<close>) and the calls it has made to it, in order.
\<close>

record backend =
  sources :: "string \<rightharpoonup> source_info"
  targets :: "string \<rightharpoonup> target_info"
  current_source :: "string option"
  calls :: "backend_call list"

subsection \<open>Widgets\<close>

text \<open>A \<open>QTimer\<close>: its interval in milliseconds and whether it is running.\<close>

record timer =
  interval :: nat
  isActive :: bool

text \<open>
  The \<open>QProgressDialog\<close>: \<open>pb_value\<close> is the argument of the last \<open>setValue\<close>
  call, \<open>pb_label\<close> that of the last \<open>setLabelText\<close>.
\<close>

record progress_dialog =
  pb_hidden :: bool
  pb_value :: int
  pb_label :: string

text \<open>
  A \<open>QTreeWidgetItem\<close>: \<open>uid\<close> is the identity of the object, \<open>udata\<close> its
  \<open>Qt.UserRole\<close> data in column 0, then the texts and tool tips of its three columns.
\<close>

record item =
  uid :: nat
  udata :: string
  text0 :: string
  text1 :: string
  text2 :: string
  tip0 :: string
  tip1 :: string
  tip2 :: string

text \<open>
  A \<open>QTreeWidget\<close>: its top-level items in the widget's order, the current item (by
  identity) and the widgets embedded in cells (item identity and column), which
  \<open>setItemWidget\<close> would add and \<open>removeItemWidget\<close> removes.
\<close>

record tree =
  topLevelItems :: "item list"
  currentItem :: "nat option"
  itemWidgets :: "(nat \<times> nat) list"

subsection \<open>The front-end object\<close>

datatype event =
    Progress int
  | ProgressMessage string
  | Failure "string option"
  | Success
  | Retry string

record frontend =
  img :: "string option"
  allow_system_internal :: bool
  recently_added_image :: "string option"
  backend :: "backend option"
  ui_source_list :: tree
  ui_dest_list :: tree
  ui_source_list_hidden :: bool
  ui_add_source_hidden :: bool
  source_label_hidden :: bool
  ui_start_button :: bool
  ui_dest_status :: string
  mainWindow_hidden :: bool
  progress_bar :: progress_dialog
  queue :: "event list"
  executed :: "event list"
  queue_processor :: "timer option"
  update_loop :: "timer option"
  dialogs :: "dialog list"
  emitted :: "nat list"
  next_uid :: nat

subsection \<open>Timers\<close>

text \<open>\<open>add_timeout\<close>: a new timer, started with the interval.\<close>

definition add_timeout :: "nat \<Rightarrow> timer" where
  "add_timeout ms = \<lparr>interval = ms, isActive = True\<rparr>"

text \<open>\<open>QTimer.stop\<close>.\<close>

definition timer_stop :: "timer \<Rightarrow> timer" where
  "timer_stop t = t\<lparr>isActive := False\<rparr>"

text \<open>
  \<open>delete_timeout\<close>: returns \<open>False\<close> at once when the timer is active, and
  stops the timer and returns \<open>True\<close> otherwise.
\<close>

definition delete_timeout :: "timer \<Rightarrow> bool \<times> timer" where
  "delete_timeout t = (if isActive t then (False, t) else (True, timer_stop t))"

subsection \<open>The backend operations the front-end calls\<close>

text \<open>
  Modelled from the spec: the backend is not among the sources. Of each operation the
  model keeps the call, in order; \<open>set_current_source\<close> also tracks the single
  globally selected source that \<open>get_current_source\<close> returns.
\<close>

definition add_image :: "string \<Rightarrow> backend \<Rightarrow> backend" where
  "add_image path b = b\<lparr>calls := calls b @ [AddImage path]\<rparr>"

definition detect_devices :: "backend \<Rightarrow> backend" where
  "detect_devices b = b\<lparr>calls := calls b @ [DetectDevices]\<rparr>"

definition set_current_source :: "string option \<Rightarrow> backend \<Rightarrow> backend" where
  "set_current_source udi b =
     b\<lparr>current_source := udi, calls := calls b @ [SetCurrentSource udi]\<rparr>"

definition get_current_source :: "backend \<Rightarrow> string option" where
  "get_current_source b = current_source b"

definition cancel_install :: "backend \<Rightarrow> backend" where
  "cancel_install b = b\<lparr>calls := calls b @ [CancelInstall]\<rparr>"

definition shutdown :: "backend \<Rightarrow> backend" where
  "shutdown b = b\<lparr>calls := calls b @ [Shutdown]\<rparr>"

subsection \<open>Tree widget operations\<close>

definition topLevelItem :: "nat \<Rightarrow> tree \<Rightarrow> item option" where
  "topLevelItem i t =
     (if i < length (topLevelItems t) then Some (topLevelItems t ! i) else None)"

text \<open>The current item, when there is one and it is in the widget.\<close>

definition current_item :: "tree \<Rightarrow> item option" where
  "current_item t =
     (case currentItem t of
        None \<Rightarrow> None
      | Some u \<Rightarrow> find (\<lambda>it. uid it = u) (topLevelItems t))"

definition setCurrentItem :: "nat \<Rightarrow> tree \<Rightarrow> tree" where
  "setCurrentItem u t = t\<lparr>currentItem := Some u\<rparr>"

text \<open>
  \<open>QTreeWidgetItem(parent)\<close> followed by \<open>setData(0, Qt.UserRole, d)\<close> and
  \<open>setText(0, d)\<close>: a new item of the widget.
\<close>

definition blank_item :: "nat \<Rightarrow> string \<Rightarrow> item" where
  "blank_item u d =
     \<lparr>uid = u, udata = d, text0 = d, text1 = [], text2 = [],
      tip0 = [], tip1 = [], tip2 = []\<rparr>"

definition addTopLevelItem :: "item \<Rightarrow> tree \<Rightarrow> tree" where
  "addTopLevelItem it t = t\<lparr>topLevelItems := topLevelItems t @ [it]\<rparr>"

definition update_item :: "nat \<Rightarrow> (item \<Rightarrow> item) \<Rightarrow> tree \<Rightarrow> tree" where
  "update_item u f t =
     t\<lparr>topLevelItems := map (\<lambda>it. if uid it = u then f it else it) (topLevelItems t)\<rparr>"

text \<open>
  \<open>takeTopLevelItem(i)\<close> removes the item at the index and returns it; an item that
  leaves the widget is no longer its current item.
\<close>

definition takeTopLevelItem :: "nat \<Rightarrow> tree \<Rightarrow> tree" where
  "takeTopLevelItem i t =
     (if i < length (topLevelItems t)
      then t\<lparr>topLevelItems := take i (topLevelItems t) @ drop (Suc i) (topLevelItems t),
             currentItem := (if currentItem t = Some (uid (topLevelItems t ! i)) then None
                             else currentItem t)\<rparr>
      else t)"

text \<open>
  \<open>removeItemWidget(item, column)\<close> removes the widget embedded in that cell of the
  item; the item stays where it is.
\<close>

definition removeItemWidget :: "item \<Rightarrow> nat \<Rightarrow> tree \<Rightarrow> tree" where
  "removeItemWidget it col t =
     t\<lparr>itemWidgets := filter (\<lambda>w. w \<noteq> (uid it, col)) (itemWidgets t)\<rparr>"

text \<open>
  The loops \<open>for i in range(0, topLevelItemCount())\<close> that stop at the first item
  satisfying a test: the index of that item.
\<close>

fun first_index :: "(item \<Rightarrow> bool) \<Rightarrow> item list \<Rightarrow> nat option" where
  "first_index P [] = None"
| "first_index P (x # xs) =
     (if P x then Some 0 else map_option Suc (first_index P xs))"

text \<open>
  The block that ends \<open>add_target\<close>'s and \<open>add_source\<close>'s first part and both
  \<open>remove\<close> methods: with no current item, the first item (if any) becomes current.
\<close>

definition ensure_current :: "tree \<Rightarrow> tree" where
  "ensure_current t =
     (case current_item t of
        Some it \<Rightarrow> t
      | None \<Rightarrow> (case topLevelItem 0 t of
                   None \<Rightarrow> t
                 | Some it \<Rightarrow> setCurrentItem (uid it) t))"

subsection \<open>Failure and notification\<close>

text \<open>
  \<open>__fail\<close>: hide the progress dialog, show the error (the default text when the
  message is \<open>None\<close> or empty) and leave through \<open>sys.exit(1)\<close>.
\<close>

definition fail :: "string option \<Rightarrow> frontend \<Rightarrow> (exc + unit) \<times> frontend" where
  "fail message st =
     (let st1 = st\<lparr>progress_bar := (progress_bar st)\<lparr>pb_hidden := True\<rparr>\<rparr>;
          msg = (case message of
                   None \<Rightarrow> ''Installation failed.''
                 | Some m \<Rightarrow> if m = [] then ''Installation failed.'' else m)
      in (Inl (SystemExit 1), st1\<lparr>dialogs := dialogs st1 @ [Critical [] msg]\<rparr>))"

definition notify :: "string \<Rightarrow> frontend \<Rightarrow> frontend" where
  "notify title st = st\<lparr>dialogs := dialogs st @ [Warning [] title]\<rparr>"

subsection \<open>Targets and sources coming and going\<close>

text \<open>
  \<open>misc.format_size\<close> is not among the sources; the methods that call it take it as
  the parameter \<open>format_size\<close>.
\<close>

definition add_target ::
  "(int \<Rightarrow> string) \<Rightarrow> string \<Rightarrow> frontend \<Rightarrow> (exc + unit) \<times> frontend" where
  "add_target format_size target st =
     (let u = next_uid st;
          t1 = ensure_current (addTopLevelItem (blank_item u target) (ui_dest_list st));
          st1 = st\<lparr>ui_dest_list := t1, next_uid := Suc u\<rparr>
      in case backend st1 of
           None \<Rightarrow> (Inr (), st1)
         | Some b \<Rightarrow>
             (case targets b target of
                None \<Rightarrow> (Inl (KeyError target), st1)
              | Some dev \<Rightarrow>
                  (let pretty_name =
                         t_vendor dev @ '' '' @ t_model dev @ '' ('' @ t_device dev @ '')''
                   in (Inr (),
                       st1\<lparr>ui_dest_list :=
                             update_item u
                               (\<lambda>it. it\<lparr>text0 := pretty_name, tip0 := pretty_name,
                                        text1 := t_label dev, tip1 := t_label dev,
                                        text2 := format_size (t_capacity dev),
                                        tip2 := format_size (t_capacity dev)\<rparr>) t1\<rparr>))))"

definition remove_target :: "string \<Rightarrow> frontend \<Rightarrow> frontend" where
  "remove_target target st =
     (let t = ui_dest_list st;
          t1 = (case first_index (\<lambda>it. udata it = target) (topLevelItems t) of
                  None \<Rightarrow> t
                | Some i \<Rightarrow> takeTopLevelItem i t)
      in st\<lparr>ui_dest_list := ensure_current t1\<rparr>)"

text \<open>
  Python's \<open>str.strip()\<close>: leading and trailing whitespace removed. The whitespace
  characters are those of \<open>str.isspace\<close> among the ASCII characters: tab, line feed,
  vertical tab, form feed, carriage return, the four separators 28 to 31 and the space.
\<close>

definition isspace :: "char \<Rightarrow> bool" where
  "isspace c = (of_char c \<in> {9, 10, 11, 12, 13, 28, 29, 30, 31, 32 :: nat})"

definition strip :: "string \<Rightarrow> string" where
  "strip s = rev (dropWhile isspace (rev (dropWhile isspace s)))"

definition add_source ::
  "(int \<Rightarrow> string) \<Rightarrow> string \<Rightarrow> frontend \<Rightarrow> (exc + unit) \<times> frontend" where
  "add_source format_size source st =
     (let u = next_uid st;
          t1 = ensure_current (addTopLevelItem (blank_item u source) (ui_source_list st));
          st1 = st\<lparr>ui_source_list := t1, next_uid := Suc u\<rparr>
      in case backend st1 of
           None \<Rightarrow>
             (case recently_added_image st1 of
                None \<Rightarrow> (Inr (), st1)
              | Some r \<Rightarrow> (Inl AttributeError, st1))
         | Some b \<Rightarrow>
             (case sources b source of
                None \<Rightarrow> (Inl (KeyError source), st1)
              | Some src \<Rightarrow>
                  (let st2 = st1\<lparr>ui_source_list :=
                               update_item u
                                 (\<lambda>it. it\<lparr>text0 := s_device src, tip0 := s_device src,
                                          text1 := strip (s_label src),
                                          tip1 := strip (s_label src),
                                          text2 := format_size (s_size src),
                                          tip2 := format_size (s_size src)\<rparr>) t1\<rparr>
                   in case recently_added_image st2 of
                        None \<Rightarrow> (Inr (), st2)
                      | Some r \<Rightarrow>
                          if s_device src = r
                          then (Inr (),
                                st2\<lparr>ui_source_list := setCurrentItem u (ui_source_list st2),
                                    recently_added_image := None\<rparr>)
                          else (Inr (), st2))))"

definition remove_source :: "string \<Rightarrow> frontend \<Rightarrow> frontend" where
  "remove_source source st =
     (let t = ui_source_list st;
          t1 = (case first_index (\<lambda>it. udata it = source) (topLevelItems t) of
                  None \<Rightarrow> t
                | Some i \<Rightarrow> removeItemWidget (topLevelItems t ! i) 0 t)
      in st\<lparr>ui_source_list := ensure_current t1\<rparr>)"

text \<open>The selected source and target: the item's data, or the empty string.\<close>

definition get_source :: "frontend \<Rightarrow> string" where
  "get_source st =
     (case current_item (ui_source_list st) of Some it \<Rightarrow> udata it | None \<Rightarrow> [])"

definition get_target :: "frontend \<Rightarrow> string" where
  "get_target st =
     (case current_item (ui_dest_list st) of Some it \<Rightarrow> udata it | None \<Rightarrow> [])"

subsection \<open>The install button and the destination status\<close>

text \<open>
  \<open>update_target\<close>: the loop emits \<open>itemChanged\<close> for the first item of the
  destination list whose data is the udi; then the button and the status message follow
  the target's status, unless no source is selected (\<open>if not source: return\<close>, which
  \<open>None\<close> and the empty string both take).
\<close>

definition update_target :: "string \<Rightarrow> frontend \<Rightarrow> (exc + unit) \<times> frontend" where
  "update_target udi st =
     (let st1 = (case find (\<lambda>it. udata it = udi) (topLevelItems (ui_dest_list st)) of
                   None \<Rightarrow> st
                 | Some it \<Rightarrow> st\<lparr>emitted := emitted st @ [uid it]\<rparr>)
      in case backend st1 of
           None \<Rightarrow> (Inl AttributeError, st1)
         | Some b \<Rightarrow>
             (case targets b udi of
                None \<Rightarrow> (Inl (KeyError udi), st1)
              | Some target \<Rightarrow>
                  (let status = t_status target in
                   case get_current_source b of
                     None \<Rightarrow> (Inr (), st1)
                   | Some source \<Rightarrow>
                       if source = [] then (Inr (), st1)
                       else (case sources b source of
                               None \<Rightarrow> (Inl (KeyError source), st1)
                             | Some src \<Rightarrow>
                                 (let stype = s_type src;
                                      st2 = (if status = CAN_USE \<or>
                                                (ui_start_button st1 \<and> stype = SOURCE_IMG)
                                             then st1\<lparr>ui_start_button := True\<rparr>
                                             else st1\<lparr>ui_start_button := False\<rparr>);
                                      msg = (if status = CANNOT_USE
                                             then ''The device is not large enough to hold this image.''
                                             else [])
                                  in (Inr (), st2\<lparr>ui_dest_status := msg\<rparr>))))))"

definition dest_selection_changed ::
  "item option \<Rightarrow> frontend \<Rightarrow> (exc + unit) \<times> frontend" where
  "dest_selection_changed current_it st =
     (case backend st of
        None \<Rightarrow> (Inr (), st)
      | Some b \<Rightarrow>
          (case current_it of
             None \<Rightarrow> (Inr (), st)
           | Some it \<Rightarrow> update_target (udata it) st))"

definition source_selection_changed ::
  "item option \<Rightarrow> frontend \<Rightarrow> (exc + unit) \<times> frontend" where
  "source_selection_changed current_it st =
     (case backend st of
        None \<Rightarrow> (Inr (), st)
      | Some b \<Rightarrow>
          (let udi = map_option udata current_it;
               st1 = st\<lparr>backend := Some (set_current_source udi b)\<rparr>
           in dest_selection_changed (current_item (ui_dest_list st1)) st1))"

subsection \<open>Adding an image by hand\<close>

text \<open>
  \<open>add_file_source_dialog\<close>; the parameter is the file name the user chose in the
  file dialog, empty when the dialog was cancelled.
\<close>

definition add_file_source_dialog ::
  "string \<Rightarrow> frontend \<Rightarrow> (exc + unit) \<times> frontend" where
  "add_file_source_dialog filename st =
     (let st1 = st\<lparr>recently_added_image := None\<rparr> in
      if filename = [] then (Inr (), st1)
      else case find (\<lambda>it. text0 it = filename) (topLevelItems (ui_source_list st1)) of
             Some it \<Rightarrow>
               (Inr (), st1\<lparr>ui_source_list := setCurrentItem (uid it) (ui_source_list st1)\<rparr>)
           | None \<Rightarrow>
               (let st2 = st1\<lparr>recently_added_image := Some filename\<rparr> in
                case backend st2 of
                  None \<Rightarrow> (Inl AttributeError, st2)
                | Some b \<Rightarrow> (Inr (), st2\<lparr>backend := Some (add_image filename b)\<rparr>)))"

subsection \<open>Starting the installation\<close>

text \<open>
  \<open>install\<close>. The parameters are what the environment answers: the button the user
  presses in the confirmation box, and whether the backend's \<open>install\<close> raises.
\<close>

definition install :: "button \<Rightarrow> bool \<Rightarrow> frontend \<Rightarrow> (exc + unit) \<times> frontend" where
  "install res backend_raises st =
     (let source = get_source st; target = get_target st in
      if source \<noteq> [] \<and> target \<noteq> [] then
        (let st1 = st\<lparr>dialogs := dialogs st @
                     [Question ''Are you sure you want to write the disc image to the device?''
                               ''All existing data will be lost.'']\<rparr>
         in if res \<noteq> Yes then (Inr (), st1)
            else
              (let st2 = st1\<lparr>mainWindow_hidden := True\<rparr> in
               case update_loop st2 of
                 None \<Rightarrow> (Inl AttributeError, st2)
               | Some t \<Rightarrow>
                   (let st3 = st2\<lparr>update_loop := Some (snd (delete_timeout t))\<rparr>;
                        st4 = st3\<lparr>progress_bar :=
                                 (progress_bar st3)\<lparr>pb_label := ''Starting up'',
                                                    pb_hidden := False\<rparr>\<rparr>
                    in case backend st4 of
                         None \<Rightarrow> fail None st4
                       | Some b \<Rightarrow>
                           (let st5 = st4\<lparr>backend :=
                                      Some (b\<lparr>calls := calls b @
                                             [Install source target (allow_system_internal st4)]\<rparr>)\<rparr>
                            in if backend_raises then fail None st5 else (Inr (), st5)))))
      else (Inr (), notify ''You must select both source image and target device first.'' st))"

subsection \<open>Callbacks the backend's thread calls\<close>

text \<open>
  \<open>thread_wrap\<close>: the decorated function puts the closure \<open>lambda: func(*args)\<close>
  at the end of the module's queue; \<open>wrap\<close> has no \<open>return\<close>, so the caller
  receives \<open>None\<close>. A closure is kept as the \<open>event\<close> naming the function and its
  arguments.
\<close>

definition thread_wrap :: "event \<Rightarrow> frontend \<Rightarrow> pyval \<times> frontend" where
  "thread_wrap e st = (PyNone, st\<lparr>queue := queue st @ [e]\<rparr>)"

text \<open>The decorated methods, as the backend sees them.\<close>

definition progress :: "int \<Rightarrow> frontend \<Rightarrow> pyval \<times> frontend" where
  "progress complete = thread_wrap (Progress complete)"

definition progress_message :: "string \<Rightarrow> frontend \<Rightarrow> pyval \<times> frontend" where
  "progress_message message = thread_wrap (ProgressMessage message)"

definition failure :: "string option \<Rightarrow> frontend \<Rightarrow> pyval \<times> frontend" where
  "failure message = thread_wrap (Failure message)"

definition success :: "frontend \<Rightarrow> pyval \<times> frontend" where
  "success = thread_wrap Success"

definition retry :: "string \<Rightarrow> frontend \<Rightarrow> pyval \<times> frontend" where
  "retry message = thread_wrap (Retry message)"

text \<open>
  The bodies under the decorator. \<open>progress\<close> works on integers here, where
  \<open>int(complete)\<close> is \<open>complete\<close>.
\<close>

definition progress_body :: "int \<Rightarrow> frontend \<Rightarrow> frontend" where
  "progress_body complete st =
     (if \<not> pb_hidden (progress_bar st) then
        (let c = (if complete > 100 then 100 else complete);
             st1 = st\<lparr>progress_bar := (progress_bar st)\<lparr>pb_value := c\<rparr>\<rparr>
         in if c = 100
            then st1\<lparr>progress_bar := (progress_bar st1)\<lparr>pb_label := ''Finishing...''\<rparr>\<rparr>
            else st1)
      else st)"

definition progress_message_body :: "string \<Rightarrow> frontend \<Rightarrow> frontend" where
  "progress_message_body message st =
     st\<lparr>progress_bar := (progress_bar st)\<lparr>pb_label := message\<rparr>\<rparr>"

definition failure_body :: "string option \<Rightarrow> frontend \<Rightarrow> (exc + pyval) \<times> frontend" where
  "failure_body message st =
     (case fail message st of
        (Inl x, st1) \<Rightarrow> (Inl x, st1)
      | (Inr u, st1) \<Rightarrow> (Inr PyNone, st1))"

definition success_body :: "frontend \<Rightarrow> (exc + pyval) \<times> frontend" where
  "success_body st =
     (let st1 = st\<lparr>progress_bar := (progress_bar st)\<lparr>pb_hidden := True\<rparr>\<rparr>;
          st2 = st1\<lparr>dialogs := dialogs st1 @
                  [Information []
                     (''The installation is complete.  You may now reboot your '' @
                      ''computer with this device inserted to try or install '' @
                      ''Ubuntu.'')]\<rparr>
      in case backend st2 of
           None \<Rightarrow> (Inl AttributeError, st2)
         | Some b \<Rightarrow> (Inl (SystemExit 0), st2\<lparr>backend := Some (shutdown b)\<rparr>))"

text \<open>The retry dialog; \<open>res\<close> is the button the user presses.\<close>

definition retry_body :: "button \<Rightarrow> string \<Rightarrow> frontend \<Rightarrow> pyval \<times> frontend" where
  "retry_body res message st =
     (PyBool (res = Yes), st\<lparr>dialogs := dialogs st @ [Warning ''Retry?'' message]\<rparr>)"

text \<open>Calling a queued closure.\<close>

fun run_event :: "button \<Rightarrow> event \<Rightarrow> frontend \<Rightarrow> (exc + pyval) \<times> frontend" where
  "run_event res (Progress complete) st = (Inr PyNone, progress_body complete st)"
| "run_event res (ProgressMessage message) st = (Inr PyNone, progress_message_body message st)"
| "run_event res (Failure message) st = failure_body message st"
| "run_event res Success st = success_body st"
| "run_event res (Retry message) st =
     (case retry_body res message st of (r, st1) \<Rightarrow> (Inr r, st1))"

subsection \<open>The consumer of the queue\<close>

text \<open>
  \<open>test_func\<close>, the function of the 500 ms timer: with a non-empty queue it takes
  the closure at the head and calls it, dropping what the call returns; it returns
  \<open>True\<close>. The field \<open>executed\<close> records the closures called, in order.
\<close>

definition test_func :: "button \<Rightarrow> frontend \<Rightarrow> (exc + pyval) \<times> frontend" where
  "test_func res st =
     (case queue st of
        [] \<Rightarrow> (Inr (PyBool True), st)
      | e # q \<Rightarrow>
          (case run_event res e (st\<lparr>queue := q, executed := executed st @ [e]\<rparr>) of
             (Inl x, st1) \<Rightarrow> (Inl x, st1)
           | (Inr r, st1) \<Rightarrow> (Inr (PyBool True), st1)))"

text \<open>Python's truth value of what a timer's function returned.\<close>

fun truthy :: "pyval \<Rightarrow> bool" where
  "truthy PyNone = False"
| "truthy (PyBool b) = b"

text \<open>
  One firing of the queue processor: \<open>__timeout_callback\<close> calls the function and
  stops the timer when the function returns a false value. A timer that is not running
  does not fire.
\<close>

definition queue_processor_timeout ::
  "button \<Rightarrow> frontend \<Rightarrow> (exc + unit) \<times> frontend" where
  "queue_processor_timeout res st =
     (case queue_processor st of
        None \<Rightarrow> (Inr (), st)
      | Some t \<Rightarrow>
          if \<not> isActive t then (Inr (), st)
          else (case test_func res st of
                  (Inl x, st1) \<Rightarrow> (Inl x, st1)
                | (Inr active, st1) \<Rightarrow>
                    (Inr (), if truthy active then st1
                             else st1\<lparr>queue_processor := Some (timer_stop t)\<rparr>)))"

text \<open>
  Successive firings, one answer of the user for each; an exception that leaves a
  firing (only \<open>SystemExit\<close> and a missing backend can) ends the run.
\<close>

fun run_ticks :: "button list \<Rightarrow> frontend \<Rightarrow> (exc + unit) \<times> frontend" where
  "run_ticks [] st = (Inr (), st)"
| "run_ticks (res # rs) st =
     (case queue_processor_timeout res st of
        (Inl x, st1) \<Rightarrow> (Inl x, st1)
      | (Inr u, st1) \<Rightarrow> run_ticks rs st1)"

subsection \<open>Leaving\<close>

definition quit :: "frontend \<Rightarrow> (exc + unit) \<times> frontend" where
  "quit st =
     (case backend st of
        None \<Rightarrow> (Inl AttributeError, st)
      | Some b \<Rightarrow> (Inl (SystemExit 0), st\<lparr>backend := Some (cancel_install b)\<rparr>))"

text \<open>The dialog behind the progress dialog's cancel button.\<close>

definition warning_dialog :: "button \<Rightarrow> frontend \<Rightarrow> (exc + unit) \<times> frontend" where
  "warning_dialog res st =
     (let st1 = st\<lparr>progress_bar := (progress_bar st)\<lparr>pb_hidden := True\<rparr>\<rparr>;
          st2 = st1\<lparr>dialogs := dialogs st1 @
                  [Warning ''Quit the installation?''
                           ''Do you really want to quit the installation now?'']\<rparr>
      in if res = Yes
         then (case quit st2 of
                 (Inl x, st3) \<Rightarrow> (Inl x, st3)
               | (Inr u, st3) \<Rightarrow>
                   (Inr (), st3\<lparr>progress_bar := (progress_bar st3)\<lparr>pb_hidden := False\<rparr>\<rparr>))
         else (Inr (), st2\<lparr>progress_bar := (progress_bar st2)\<lparr>pb_hidden := False\<rparr>\<rparr>))"

subsection \<open>Construction\<close>

text \<open>
  The object when \<open>__init__\<close> has stored its arguments and \<open>__initPrivateVars\<close> has
  run, with the widgets of the main window as a freshly loaded form has them: empty
  lists, nothing hidden by the program yet, the window and the progress dialog not shown.
\<close>

definition initPrivateVars :: "string option \<Rightarrow> bool \<Rightarrow> frontend" where
  "initPrivateVars img_arg allow =
     \<lparr>img = img_arg,
      allow_system_internal = allow,
      recently_added_image = None,
      backend = None,
      ui_source_list = \<lparr>topLevelItems = [], currentItem = None, itemWidgets = []\<rparr>,
      ui_dest_list = \<lparr>topLevelItems = [], currentItem = None, itemWidgets = []\<rparr>,
      ui_source_list_hidden = False,
      ui_add_source_hidden = False,
      source_label_hidden = False,
      ui_start_button = True,
      ui_dest_status = [],
      mainWindow_hidden = True,
      progress_bar = \<lparr>pb_hidden = True, pb_value = - 1, pb_label = []\<rparr>,
      queue = [],
      executed = [],
      queue_processor = None,
      update_loop = None,
      dialogs = [],
      emitted = [],
      next_uid = 0\<rparr>"

text \<open>
  \<open>__initUI\<close>: the test \<open>self.__img is not ''\<close> compares object identity with the
  empty string literal, which only the empty string itself passes; \<open>None\<close> and every
  other string take the branch that hides the three source widgets.
\<close>

definition initUI :: "frontend \<Rightarrow> frontend" where
  "initUI st =
     (let st1 = (if img st \<noteq> Some []
                 then st\<lparr>ui_source_list_hidden := True,
                         ui_add_source_hidden := True,
                         source_label_hidden := True\<rparr>
                 else st);
          st2 = st1\<lparr>ui_start_button := False\<rparr>
      in st2\<lparr>mainWindow_hidden := False\<rparr>)"

text \<open>
  \<open>__init__\<close>. \<open>isos\<close> are the absolute paths of the \<open>*.iso\<close> files the
  downloads directory lists.
\<close>

definition init :: "backend \<Rightarrow> string option \<Rightarrow> bool \<Rightarrow> string list \<Rightarrow> frontend" where
  "init b img_arg allow isos =
     (let st1 = initUI (initPrivateVars img_arg allow);
          b1 = (case img st1 of None \<Rightarrow> b | Some i \<Rightarrow> add_image i b);
          b2 = fold add_image isos b1;
          st2 = st1\<lparr>backend := Some b2, queue_processor := Some (add_timeout 500)\<rparr>;
          b3 = detect_devices b2
      in st2\<lparr>backend := Some b3, update_loop := Some (add_timeout 2000)\<rparr>)"

subsection \<open>Runs and example states\<close>

text \<open>
  The values the progress dialog is given over a run of \<open>progress\<close> events, one after
  each event.
\<close>

fun shown_values :: "int list \<Rightarrow> frontend \<Rightarrow> int list" where
  "shown_values [] st = []"
| "shown_values (c # cs) st =
     (let st1 = progress_body c st in pb_value (progress_bar st1) # shown_values cs st1)"

text \<open>A backend with one image and two sticks, and the front-end constructed on it.\<close>

definition example_backend :: backend where
  "example_backend =
     \<lparr>sources = [''/home/u/ubuntu.iso'' \<mapsto>
                   \<lparr>s_device = ''/home/u/ubuntu.iso'', s_label = '' Ubuntu 14.04  '',
                    s_size = 3500000000, s_type = SOURCE_ISO\<rparr>],
      targets = [''/dev/sdb'' \<mapsto>
                   \<lparr>t_vendor = ''Kingston'', t_model = ''DataTraveler'',
                    t_device = ''/dev/sdb'', t_label = ''DATA'',
                    t_capacity = 2000000000, t_status = CANNOT_USE\<rparr>,
                 ''/dev/sdc'' \<mapsto>
                   \<lparr>t_vendor = ''SanDisk'', t_model = ''Cruzer'',
                    t_device = ''/dev/sdc'', t_label = ''STICK'',
                    t_capacity = 8000000000, t_status = CAN_USE\<rparr>],
      current_source = None,
      calls = []\<rparr>"

definition example_frontend :: frontend where
  "example_frontend = init example_backend None False []"

section \<open>Properties\<close>

subsection \<open>Timers\<close>

lemma delete_timeout_eq: "delete_timeout t = (\<not> isActive t, t)"
  by (simp add: delete_timeout_def timer_stop_def)

lemma install_update_loop: "update_loop (snd (install res raises st)) = update_loop st"
  by (auto simp: install_def fail_def notify_def delete_timeout_eq Let_def
      split: option.splits)

text \<open>
  C9. \<open>delete_timeout\<close> returns \<open>True\<close> exactly for a timer that is already
  inactive and never changes the timer it is given: an active timer is answered
  \<open>False\<close> and keeps running. So the refresh timer that \<open>__init__\<close> starts with
  2000 ms is the same, still active, after \<open>install\<close> has tried to delete it.
\<close>

theorem delete_timeout_never_stops_running_timer:
  "delete_timeout t = (\<not> isActive t, t)
   \<and> update_loop (snd (install res raises st)) = update_loop st
   \<and> update_loop (init b i a isos) = Some \<lparr>interval = 2000, isActive = True\<rparr>"
  by (simp add: delete_timeout_eq install_update_loop init_def add_timeout_def Let_def)

subsection \<open>Hiding the source widgets\<close>

text \<open>
  C10. After construction the source list, the add-source button and the source label
  are hidden exactly when the \<open>img\<close> argument is not the empty string; in particular
  they are hidden for the default \<open>None\<close>.
\<close>

theorem source_ui_hidden_unless_empty_string:
  "ui_source_list_hidden (init b i a isos) = (i \<noteq> Some [])
   \<and> ui_add_source_hidden (init b i a isos) = (i \<noteq> Some [])
   \<and> source_label_hidden (init b i a isos) = (i \<noteq> Some [])
   \<and> ui_source_list_hidden (init b None a isos)
   \<and> ui_add_source_hidden (init b None a isos)
   \<and> source_label_hidden (init b None a isos)"
  by (simp add: init_def initUI_def initPrivateVars_def Let_def)

end
